theory Spec2Isabelle
  imports Main
begin

section \<open>cxx\_function.hpp: the type-erasure and dispatch engine\<close>

text \<open>
  A shallow embedding of \<^verbatim>\<open>cxx_function.hpp\<close>. Templates become functions of a
  description of their template arguments, the erasure classes become the constructors
  of one datatype, the dispatch table becomes a record of functions, and everything a
  C++ operation can do besides returning (throw, call \<^verbatim>\<open>std::terminate\<close>, run into
  undefined behaviour, fail to compile) is a constructor of the result type.
\<close>

subsection \<open>Values of the embedding\<close>

text \<open>\<^verbatim>\<open>std::type_info\<close>: the token of \<^verbatim>\<open>void\<close> and the token of every object type.\<close>

datatype type_info = typeid_void | typeid_of nat

datatype exn = bad_function_call | bad_alloc | user_exception nat

text \<open>
  What a C++ operation does: returns \<open>'x\<close> and leaves state \<open>'s\<close>; throws and leaves
  state \<open>'s\<close>; reaches \<^verbatim>\<open>std::terminate\<close>; has undefined behaviour; or is an
  expression that does not compile.
\<close>

datatype ('x, 's) outcome =
    Normal 'x 's
  | Throws exn 's
  | Terminated
  | Undefined_behaviour
  | Ill_formed

subsection \<open>Signatures and access paths\<close>

datatype ref_qual = no_ref | lvalue_ref | rvalue_ref

record quals =
  q_const :: bool
  q_volatile :: bool
  q_ref :: ref_qual

text \<open>
  A declared signature \<^verbatim>\<open>ret( args ... ) QUALS\<close>: \<open>sig_id\<close> stands for the
  \<^verbatim>\<open>ret( args ... )\<close> part, which the embedding does not look into.
\<close>

record signature =
  sig_id :: nat
  sig_quals :: quals

text \<open>The object expression of a call: its cv-qualification and value category.\<close>

record path =
  p_const :: bool
  p_volatile :: bool
  p_rvalue :: bool

definition unqualified :: quals where
  "unqualified = \<lparr>q_const = False, q_volatile = False, q_ref = no_ref\<rparr>"

definition mutable_lvalue :: path where
  "mutable_lvalue = \<lparr>p_const = False, p_volatile = False, p_rvalue = False\<rparr>"

definition const_lvalue :: path where
  "const_lvalue = \<lparr>p_const = True, p_volatile = False, p_rvalue = False\<rparr>"

text \<open>
  \<^verbatim>\<open>static_cast< typename add_reference< derived QUALS >::type >( * this )\<close>:
  \<^verbatim>\<open>add_reference\<close> keeps \<^verbatim>\<open>&&\<close> and makes everything else an lvalue reference.
\<close>

definition add_reference :: "quals \<Rightarrow> path" where
  "add_reference q = \<lparr>p_const = q_const q, p_volatile = q_volatile q,
     p_rvalue = (q_ref q = rvalue_ref)\<rparr>"

subsection \<open>Payload types\<close>

datatype category = pointer_type | member_pointer_type | class_type

datatype value_category = lvalue | rvalue

text \<open>
  The static description of a payload type \<^verbatim>\<open>T\<close>, over a universe \<open>'v\<close> of payload
  values, argument lists \<open>'a\<close> and results \<open>'r\<close>:
  its \<^verbatim>\<open>typeid\<close> (never that of \<^verbatim>\<open>void\<close>, which has no values), whether it is
  \<^verbatim>\<open>t *\<close>, \<^verbatim>\<open>t c::*\<close> or anything else, the numbers and traits \<^verbatim>\<open>is_small\<close> reads,
  \<^verbatim>\<open>std::is_copy_constructible\<close>, the contextual conversion to \<^verbatim>\<open>bool\<close> of a pointer,
  whether copying or moving a given value throws, and the call operator: which
  overload runs depends on the cv-qualification and value category of the object
  expression and on the signature called; it returns or throws and may change the
  object.
\<close>

record ('v, 'a, 'r) type_desc =
  type_id :: nat
  kind :: category
  sizeof_local_erasure :: nat
  alignof_type :: nat
  nothrow_move_constructible :: bool
  copy_constructible :: bool
  to_bool :: "'v \<Rightarrow> bool"
  copy_throws :: "'v \<Rightarrow> exn option"
  move_throws :: "'v \<Rightarrow> exn option"
  call :: "path \<Rightarrow> nat \<Rightarrow> 'v \<Rightarrow> 'a \<Rightarrow> (exn + 'r) \<times> 'v"

text \<open>
  Constructing a \<^verbatim>\<open>T\<close> from a \<^verbatim>\<open>T\<close>: a copy from an lvalue, a move from an
  rvalue. A copy or move that returns yields an equal value. A type that is
  nothrow-move-constructible does not throw when moved; a type that is not
  copy-constructible cannot be copied at all.
\<close>

definition construct_from ::
  "('v, 'a, 'r) type_desc \<Rightarrow> value_category \<Rightarrow> 'v \<Rightarrow> exn option option" where
  "construct_from T c v =
     (case c of
        lvalue \<Rightarrow> (if copy_constructible T then Some (copy_throws T v) else None)
      | rvalue \<Rightarrow> (if nothrow_move_constructible T then Some None
                   else Some (move_throws T v)))"

subsection \<open>The allocator and its memory\<close>

text \<open>
  \<^verbatim>\<open>std::allocator_traits\<close> is the standard library's. An allocator is identified by
  \<open>alloc_id\<close>; \<open>sizeof_allocator_erasure\<close> is \<^verbatim>\<open>sizeof (allocator_erasure< allocator,
  source, sig ... >)\<close>, which a static assertion reads. The memory records every call
  made through an allocator, the objects constructed and not yet destroyed, the next
  fresh address and how many more allocations succeed before \<^verbatim>\<open>std::bad_alloc\<close>.
\<close>

record allocator =
  alloc_id :: nat
  sizeof_allocator_erasure :: nat

text \<open>
  The calls: \<open>Allocate al n p\<close> is \<^verbatim>\<open>allocate( al, n )\<close> returning \<open>p\<close>,
  \<open>Construct al p\<close> and \<open>Destroy al p\<close> are \<^verbatim>\<open>construct( al, p, ... )\<close> and
  \<^verbatim>\<open>destroy( al, p )\<close>, \<open>Deallocate al p n\<close> is \<^verbatim>\<open>deallocate( al, p, n )\<close>.
\<close>

datatype event =
    Allocate nat nat nat
  | Construct nat nat
  | Destroy nat nat
  | Deallocate nat nat nat

record 'v heap =
  objects :: "nat \<rightharpoonup> 'v"
  log :: "event list"
  next_addr :: nat
  remaining :: nat

text \<open>\<^verbatim>\<open>allocator_traits::allocate( alloc, n )\<close>\<close>

definition allocate :: "allocator \<Rightarrow> nat \<Rightarrow> 'v heap \<Rightarrow> (nat, 'v heap) outcome" where
  "allocate al n h =
     (if remaining h = 0 then Throws bad_alloc h
      else Normal (next_addr h)
             (h\<lparr>log := log h @ [Allocate (alloc_id al) n (next_addr h)],
                next_addr := Suc (next_addr h),
                remaining := remaining h - 1\<rparr>))"

text \<open>
  \<^verbatim>\<open>allocator_traits::construct( alloc, p, arg )\<close> with one argument of the payload's
  type: placement-constructs a copy or a move of it at \<open>p\<close>.
\<close>

definition construct ::
  "allocator \<Rightarrow> nat \<Rightarrow> ('v, 'a, 'r) type_desc \<Rightarrow> value_category \<Rightarrow> 'v \<Rightarrow> 'v heap
     \<Rightarrow> (unit, 'v heap) outcome" where
  "construct al p T c v h =
     (case construct_from T c v of
        None \<Rightarrow> Ill_formed
      | Some (Some e) \<Rightarrow> Throws e h
      | Some None \<Rightarrow>
          Normal () (h\<lparr>objects := (objects h)(p \<mapsto> v),
                       log := log h @ [Construct (alloc_id al) p]\<rparr>))"

text \<open>
  \<^verbatim>\<open>allocator_traits::destroy( alloc, p )\<close> runs the destructor of the object at
  \<open>p\<close>; there must be one. A null \<open>p\<close> is \<open>None\<close>.
\<close>

definition destroy_at :: "allocator \<Rightarrow> nat option \<Rightarrow> 'v heap \<Rightarrow> (unit, 'v heap) outcome" where
  "destroy_at al p h =
     (case p of
        None \<Rightarrow> Undefined_behaviour
      | Some a \<Rightarrow>
          (case objects h a of
             None \<Rightarrow> Undefined_behaviour
           | Some v \<Rightarrow>
               Normal () (h\<lparr>objects := (objects h)(a := None),
                            log := log h @ [Destroy (alloc_id al) a]\<rparr>)))"

text \<open>
  The blocks allocated and not deallocated, read off the log from its oldest entry
  to its newest: an allocation adds its block to those live so far, a deallocation
  removes its block from them.
\<close>

fun live_after :: "nat list \<Rightarrow> event list \<Rightarrow> nat list" where
  "live_after live [] = live"
| "live_after live (Allocate al n a # es) = live_after (live @ [a]) es"
| "live_after live (Deallocate al a n # es) = live_after (removeAll a live) es"
| "live_after live (e # es) = live_after live es"

definition live_blocks :: "event list \<Rightarrow> nat list" where
  "live_blocks es = live_after [] es"

subsection \<open>Erasures\<close>

text \<open>
  The four erasure classes. \<^verbatim>\<open>local_erasure< target_type, sig ... >\<close> and
  \<^verbatim>\<open>ptm_erasure< target_type, sig ... >\<close> hold the target itself;
  \<^verbatim>\<open>allocator_erasure< allocator, target_type, sig ... >\<close> holds the allocator and
  the pointer \<^verbatim>\<open>target\<close>, null being \<open>None\<close>. The reference \<^verbatim>\<open>table\<close> of
  \<^verbatim>\<open>erasure_base\<close> is bound by each constructor to the static table of its own class,
  so it is a function of the constructor (\<open>table\<close> below).
\<close>

datatype ('v, 'a, 'r) erasure =
    null_erasure
  | local_erasure "('v, 'a, 'r) type_desc" 'v
  | ptm_erasure "('v, 'a, 'r) type_desc" 'v
  | allocator_erasure allocator "('v, 'a, 'r) type_desc" "nat option"

text \<open>
  A \<^verbatim>\<open>void const *\<close> as \<^verbatim>\<open>target_access\<close> returns it: null, the address of the member
  \<^verbatim>\<open>target\<close> of the erasure it was asked of, or an address of the allocator's memory.
\<close>

datatype pointer = nullptr | member_target | allocated nat

text \<open>
  \<^verbatim>\<open>erasure_base::dispatch_table\<close>, the tuple indexed by \<^verbatim>\<open>dispatch_slot\<close>; the entries
  from \<^verbatim>\<open>base_index\<close> on are the list \<open>dispatchers\<close>. Each member function takes the
  erasure it is applied to. A move constructs at the destination and leaves the
  source behind: it returns both. The copy entry is a pointer to member that can be
  null.
\<close>

record ('v, 'a, 'r) dispatch_table =
  destructor_slot :: "('v, 'a, 'r) erasure \<Rightarrow> 'v heap \<Rightarrow> (unit, 'v heap) outcome"
  move_constructor_slot :: "('v, 'a, 'r) erasure \<Rightarrow> 'v heap
     \<Rightarrow> (('v, 'a, 'r) erasure \<times> ('v, 'a, 'r) erasure, 'v heap) outcome"
  copy_constructor_slot :: "(('v, 'a, 'r) erasure \<Rightarrow> 'v heap
     \<Rightarrow> (('v, 'a, 'r) erasure, 'v heap) outcome) option"
  target_access_slot :: "('v, 'a, 'r) erasure \<Rightarrow> pointer option"
  target_type_slot :: type_info
  dispatchers :: "(('v, 'a, 'r) erasure \<Rightarrow> 'a \<Rightarrow> 'v heap
     \<Rightarrow> ('r, ('v, 'a, 'r) erasure \<times> 'v heap) outcome) list"

text \<open>
  Every constructor of an erasure class binds \<^verbatim>\<open>table\<close>, the static table of the
  class. Its initialiser (\<^verbatim>\<open>DISPATCH_TABLE\<close>) names \<^verbatim>\<open>& NAME::copy\<close>, so
  \<^verbatim>\<open>erasure_special< NAME >::copy\<close> is instantiated with it, and its body
  copy-constructs the erasure and with it the target: a program that constructs an
  erasure of a target type that is not copy-constructible does not compile.
\<close>

definition table_instantiates :: "('v, 'a, 'r) type_desc \<Rightarrow> bool" where
  "table_instantiates T \<longleftrightarrow> copy_constructible T"

text \<open>
  The constructor \<^verbatim>\<open>allocator_erasure( allocator in_alloc, arg && ... a )\<close> with one
  argument of the payload's type: allocate one element, then construct. Nothing
  catches what \<^verbatim>\<open>construct\<close> throws.
\<close>

definition new_allocator_erasure ::
  "allocator \<Rightarrow> ('v, 'a, 'r) type_desc \<Rightarrow> value_category \<Rightarrow> 'v \<Rightarrow> 'v heap
     \<Rightarrow> (('v, 'a, 'r) erasure, 'v heap) outcome" where
  "new_allocator_erasure in_alloc T c a h =
     (if \<not> table_instantiates T then Ill_formed
      else
        (case allocate in_alloc 1 h of
           Normal target h1 \<Rightarrow>
             (case construct in_alloc target T c a h1 of
                Normal u h2 \<Rightarrow> Normal (allocator_erasure in_alloc T (Some target)) h2
              | Throws e h2 \<Rightarrow> Throws e h2
              | Terminated \<Rightarrow> Terminated
              | Undefined_behaviour \<Rightarrow> Undefined_behaviour
              | Ill_formed \<Rightarrow> Ill_formed)
         | Throws e h1 \<Rightarrow> Throws e h1
         | Terminated \<Rightarrow> Terminated
         | Undefined_behaviour \<Rightarrow> Undefined_behaviour
         | Ill_formed \<Rightarrow> Ill_formed))"

text \<open>
  The constructors of \<^verbatim>\<open>local_erasure\<close> and \<^verbatim>\<open>ptm_erasure\<close> with one argument of the
  payload's type: \<^verbatim>\<open>target( std::forward< arg >( a ) ... )\<close>, \<^verbatim>\<open>target( a )\<close>.
\<close>

definition new_local_erasure ::
  "('v, 'a, 'r) type_desc \<Rightarrow> value_category \<Rightarrow> 'v \<Rightarrow> 'v heap
     \<Rightarrow> (('v, 'a, 'r) erasure, 'v heap) outcome" where
  "new_local_erasure T c a h =
     (if \<not> table_instantiates T then Ill_formed
      else
        (case construct_from T c a of
           None \<Rightarrow> Ill_formed
         | Some (Some e) \<Rightarrow> Throws e h
         | Some None \<Rightarrow> Normal (local_erasure T a) h))"

definition new_ptm_erasure ::
  "('v, 'a, 'r) type_desc \<Rightarrow> 'v \<Rightarrow> 'v heap \<Rightarrow> (('v, 'a, 'r) erasure, 'v heap) outcome" where
  "new_ptm_erasure T a h =
     (if \<not> table_instantiates T then Ill_formed
      else
        (case construct_from T lvalue a of
           None \<Rightarrow> Ill_formed
         | Some (Some e) \<Rightarrow> Throws e h
         | Some None \<Rightarrow> Normal (ptm_erasure T a) h))"

text \<open>
  \<^verbatim>\<open>erasure_special< derived >::destroy\<close> runs \<^verbatim>\<open>~ derived()\<close>. Only
  \<^verbatim>\<open>allocator_erasure\<close> declares a destructor: it destroys the object \<^verbatim>\<open>target\<close>
  points to through the allocator, and that is all it does.
\<close>

fun erasure_special_destroy ::
  "('v, 'a, 'r) erasure \<Rightarrow> 'v heap \<Rightarrow> (unit, 'v heap) outcome" where
  "erasure_special_destroy (allocator_erasure al T target) h = destroy_at al target h"
| "erasure_special_destroy e h = Normal () h"

text \<open>
  \<^verbatim>\<open>erasure_special< derived >::move\<close> runs
  \<^verbatim>\<open>new (dest) derived( std::move( * this ) )\<close>: the move constructor of
  \<^verbatim>\<open>allocator_erasure\<close> takes over \<^verbatim>\<open>o.target\<close> and sets it to \<^verbatim>\<open>nullptr\<close>; the
  others are implicit and move the member \<^verbatim>\<open>target\<close>.
\<close>

fun erasure_special_move ::
  "('v, 'a, 'r) erasure \<Rightarrow> 'v heap
     \<Rightarrow> (('v, 'a, 'r) erasure \<times> ('v, 'a, 'r) erasure, 'v heap) outcome" where
  "erasure_special_move null_erasure h = Normal (null_erasure, null_erasure) h"
| "erasure_special_move (local_erasure T v) h =
     (case construct_from T rvalue v of
        None \<Rightarrow> Ill_formed
      | Some (Some e) \<Rightarrow> Throws e h
      | Some None \<Rightarrow> Normal (local_erasure T v, local_erasure T v) h)"
| "erasure_special_move (ptm_erasure T v) h =
     (case construct_from T rvalue v of
        None \<Rightarrow> Ill_formed
      | Some (Some e) \<Rightarrow> Throws e h
      | Some None \<Rightarrow> Normal (ptm_erasure T v, ptm_erasure T v) h)"
| "erasure_special_move (allocator_erasure al T target) h =
     Normal (allocator_erasure al T target, allocator_erasure al T None) h"

text \<open>
  \<^verbatim>\<open>erasure_special< derived >::copy\<close> runs
  \<^verbatim>\<open>new (dest) derived( * static_cast< derived const * >( this ) )\<close>: the copy
  constructor of \<^verbatim>\<open>allocator_erasure\<close> allocates one element and copy-constructs
  \<^verbatim>\<open>* o.target\<close> into it.
\<close>

fun erasure_special_copy ::
  "('v, 'a, 'r) erasure \<Rightarrow> 'v heap \<Rightarrow> (('v, 'a, 'r) erasure, 'v heap) outcome" where
  "erasure_special_copy null_erasure h = Normal null_erasure h"
| "erasure_special_copy (local_erasure T v) h = new_local_erasure T lvalue v h"
| "erasure_special_copy (ptm_erasure T v) h = new_ptm_erasure T v h"
| "erasure_special_copy (allocator_erasure al T target) h =
     (case target of
        None \<Rightarrow> Undefined_behaviour
      | Some a \<Rightarrow>
          (case objects h a of
             None \<Rightarrow> Undefined_behaviour
           | Some v \<Rightarrow> new_allocator_erasure al T lvalue v h))"

text \<open>
  The accessor \<^verbatim>\<open>erasure_copy\<close>: the copy member for a copy-constructible class,
  \<^verbatim>\<open>nullptr\<close> otherwise. An erasure class is copy-constructible when its members are:
  \<^verbatim>\<open>allocator_erasure\<close> declares its own copy constructor.
\<close>

fun is_copy_constructible :: "('v, 'a, 'r) erasure \<Rightarrow> bool" where
  "is_copy_constructible (local_erasure T v) = copy_constructible T"
| "is_copy_constructible (ptm_erasure T v) = copy_constructible T"
| "is_copy_constructible e = True"

definition erasure_copy ::
  "('v, 'a, 'r) erasure
     \<Rightarrow> (('v, 'a, 'r) erasure \<Rightarrow> 'v heap \<Rightarrow> (('v, 'a, 'r) erasure, 'v heap) outcome) option" where
  "erasure_copy derived =
     (if is_copy_constructible derived then Some erasure_special_copy else None)"

text \<open>
  \<^verbatim>\<open>target_access\<close> of each class; \<open>None\<close> where the expression has no defined
  value (\<^verbatim>\<open>std::addressof( * target )\<close> of a null \<^verbatim>\<open>target\<close>).
\<close>

fun target_access :: "('v, 'a, 'r) erasure \<Rightarrow> pointer option" where
  "target_access null_erasure = Some nullptr"
| "target_access (local_erasure T v) = Some member_target"
| "target_access (ptm_erasure T v) = Some member_target"
| "target_access (allocator_erasure al T target) =
     (case target of None \<Rightarrow> None | Some a \<Rightarrow> Some (allocated a))"

text \<open>
  The call operators \<^verbatim>\<open>NAME_dispatch\<close> generates for one signature
  (\<^verbatim>\<open>NULL_CASE\<close>, \<^verbatim>\<open>LOCAL_CASE\<close>, \<^verbatim>\<open>PTM_CASE\<close>, \<^verbatim>\<open>ALLOCATOR_CASE\<close>). Applied to an
  erasure of another class a member pointer is bogus.
\<close>

definition returned ::
  "(exn + 'r) \<Rightarrow> 's \<Rightarrow> ('r, 's) outcome" where
  "returned res s = (case res of Inl e \<Rightarrow> Throws e s | Inr r \<Rightarrow> Normal r s)"

fun null_dispatch ::
  "signature \<Rightarrow> ('v, 'a, 'r) erasure \<Rightarrow> 'a \<Rightarrow> 'v heap
     \<Rightarrow> ('r, ('v, 'a, 'r) erasure \<times> 'v heap) outcome" where
  "null_dispatch s e a h = Throws bad_function_call (e, h)"

fun local_dispatch ::
  "signature \<Rightarrow> ('v, 'a, 'r) erasure \<Rightarrow> 'a \<Rightarrow> 'v heap
     \<Rightarrow> ('r, ('v, 'a, 'r) erasure \<times> 'v heap) outcome" where
  "local_dispatch s (local_erasure T v) a h =
     (case call T (add_reference (sig_quals s)) (sig_id s) v a of
        (res, v') \<Rightarrow> returned res (local_erasure T v', h))"
| "local_dispatch s e a h = Undefined_behaviour"

fun ptm_dispatch ::
  "signature \<Rightarrow> ('v, 'a, 'r) erasure \<Rightarrow> 'a \<Rightarrow> 'v heap
     \<Rightarrow> ('r, ('v, 'a, 'r) erasure \<times> 'v heap) outcome" where
  "ptm_dispatch s (ptm_erasure T v) a h =
     (case call T \<lparr>p_const = True, p_volatile = True, p_rvalue = False\<rparr> (sig_id s) v a of
        (res, v') \<Rightarrow> returned res (ptm_erasure T v, h))"
| "ptm_dispatch s e a h = Undefined_behaviour"

fun allocator_dispatch ::
  "signature \<Rightarrow> ('v, 'a, 'r) erasure \<Rightarrow> 'a \<Rightarrow> 'v heap
     \<Rightarrow> ('r, ('v, 'a, 'r) erasure \<times> 'v heap) outcome" where
  "allocator_dispatch s (allocator_erasure al T target) a h =
     (case target of
        None \<Rightarrow> Undefined_behaviour
      | Some p \<Rightarrow>
          (case objects h p of
             None \<Rightarrow> Undefined_behaviour
           | Some v \<Rightarrow>
               (case call T mutable_lvalue (sig_id s) v a of
                  (res, v') \<Rightarrow>
                    returned res (allocator_erasure al T target,
                                  h\<lparr>objects := (objects h)(p \<mapsto> v')\<rparr>))))"
| "allocator_dispatch s e a h = Undefined_behaviour"

text \<open>
  \<^verbatim>\<open>DISPATCH_TABLE( NAME, TARGET_TYPE, TPARAM, TARG )\<close>: the members of \<^verbatim>\<open>NAME\<close> in
  slot order. The copy slot is \<^verbatim>\<open>& NAME::copy\<close> for every \<^verbatim>\<open>NAME\<close>.
\<close>

definition DISPATCH_TABLE ::
  "type_info
   \<Rightarrow> (signature \<Rightarrow> ('v, 'a, 'r) erasure \<Rightarrow> 'a \<Rightarrow> 'v heap
        \<Rightarrow> ('r, ('v, 'a, 'r) erasure \<times> 'v heap) outcome)
   \<Rightarrow> signature list \<Rightarrow> ('v, 'a, 'r) dispatch_table" where
  "DISPATCH_TABLE TARGET_TYPE NAME_dispatch sigs =
     \<lparr>destructor_slot = erasure_special_destroy,
      move_constructor_slot = erasure_special_move,
      copy_constructor_slot = Some erasure_special_copy,
      target_access_slot = target_access,
      target_type_slot = TARGET_TYPE,
      dispatchers = map NAME_dispatch sigs\<rparr>"

text \<open>The table an erasure refers to: that of its class.\<close>

fun table :: "signature list \<Rightarrow> ('v, 'a, 'r) erasure \<Rightarrow> ('v, 'a, 'r) dispatch_table" where
  "table sigs null_erasure = DISPATCH_TABLE typeid_void null_dispatch sigs"
| "table sigs (local_erasure T v) = DISPATCH_TABLE (typeid_of (type_id T)) local_dispatch sigs"
| "table sigs (ptm_erasure T v) = DISPATCH_TABLE (typeid_of (type_id T)) ptm_dispatch sigs"
| "table sigs (allocator_erasure al T target) =
     DISPATCH_TABLE (typeid_of (type_id T)) allocator_dispatch sigs"

subsection \<open>The call operators of the wrapper\<close>

text \<open>
  \<^verbatim>\<open>wrapper_dispatch< derived, table_index, sig ... >\<close> inherits one call operator per
  element of its list. \<^verbatim>\<open>DISPATCH_ALL( WRAPPER_CASE )\<close> passes \<^verbatim>\<open>UNPACK\<close> as
  \<^verbatim>\<open>UNSAFE\<close> for the signature without qualifiers only, and \<^verbatim>\<open>IGNORE\<close> for the eleven
  others: only there \<^verbatim>\<open>const_unsafe_case< ret( args ... ) >\<close> is appended to the list
  of the base class. The result lists the operators from the most derived class down.
\<close>

datatype sig_case = declared signature | const_unsafe_case nat

datatype call_operator = table_operator signature nat | const_unsafe_operator nat

function wrapper_dispatch :: "nat \<Rightarrow> sig_case list \<Rightarrow> call_operator list" where
  "wrapper_dispatch table_index [] = []"
| "wrapper_dispatch table_index (declared s # more_sigs) =
     table_operator s table_index
       # wrapper_dispatch (table_index + 1)
           (more_sigs @ (if sig_quals s = unqualified then [const_unsafe_case (sig_id s)] else []))"
| "wrapper_dispatch n (const_unsafe_case i # more_sigs) =
     const_unsafe_operator i # wrapper_dispatch n more_sigs"
  by pat_completeness auto
termination
  by (relation "measure (\<lambda>(n, cs).
        2 * length (filter (\<lambda>c. case c of declared s \<Rightarrow> True | const_unsafe_case i \<Rightarrow> False) cs)
        + length cs)") auto

fun op_sig_id :: "call_operator \<Rightarrow> nat" where
  "op_sig_id (table_operator s i) = sig_id s"
| "op_sig_id (const_unsafe_operator i) = i"

fun op_quals :: "call_operator \<Rightarrow> quals" where
  "op_quals (table_operator s i) = sig_quals s"
| "op_quals (const_unsafe_operator i) = \<lparr>q_const = True, q_volatile = False, q_ref = no_ref\<rparr>"


text \<open>
  Which operator a call expression names. The arguments select \<open>sig_id\<close>; the rest is
  overload resolution on the implicit object parameter: an operator is viable when
  its cv-qualification covers that of the object expression and its ref-qualifier
  accepts the value category; one viable operator is better than another when it adds
  fewer cv-qualifiers, or, for an rvalue, binds it to \<^verbatim>\<open>&&\<close> rather than \<^verbatim>\<open>&\<close>;
  the operator of a derived class hides an equally qualified one of a base; the call
  is ill-formed (\<open>None\<close>) unless one operator is at least as good as every other.
\<close>

definition viable :: "quals \<Rightarrow> path \<Rightarrow> bool" where
  "viable q p \<longleftrightarrow>
     (if p_const p then q_const q else True) \<and>
     (if p_volatile p then q_volatile q else True) \<and>
     (case q_ref q of
        no_ref \<Rightarrow> True
      | lvalue_ref \<Rightarrow> (if p_rvalue p then q_const q \<and> \<not> q_volatile q else True)
      | rvalue_ref \<Rightarrow> p_rvalue p)"

definition cv_le :: "quals \<Rightarrow> quals \<Rightarrow> bool" where
  "cv_le a b \<longleftrightarrow>
     (if q_const a then q_const b else True) \<and> (if q_volatile a then q_volatile b else True)"

definition better :: "path \<Rightarrow> quals \<Rightarrow> quals \<Rightarrow> bool" where
  "better p a b \<longleftrightarrow>
     (cv_le a b \<and> \<not> cv_le b a) \<or>
     (cv_le a b \<and> cv_le b a \<and> p_rvalue p \<and> q_ref a = rvalue_ref \<and> q_ref b = lvalue_ref)"

definition resolve :: "call_operator list \<Rightarrow> path \<Rightarrow> nat \<Rightarrow> call_operator option" where
  "resolve ops p sid =
     (let cands = filter (\<lambda>c. op_sig_id c = sid \<and> viable (op_quals c) p) ops
      in find (\<lambda>w. list_all (\<lambda>d. op_quals d = op_quals w \<or> better p (op_quals w) (op_quals d))
                      cands) cands)"

subsection \<open>The wrapper\<close>

text \<open>
  \<^verbatim>\<open>wrapper_base< sig ... >\<close> owns \<^verbatim>\<open>storage\<close>. Between \<^verbatim>\<open>destroy()\<close> and the next
  \<^verbatim>\<open>init\<close> the storage holds no erasure: that is \<open>None\<close>, and \<^verbatim>\<open>erasure()\<close> of it is
  undefined.
\<close>

record ('v, 'a, 'r) wrapper_base =
  storage :: "('v, 'a, 'r) erasure option"

text \<open>
  What the implementation fixes: \<^verbatim>\<open>sizeof (storage)\<close>, that is
  \<^verbatim>\<open>sizeof (void *[4])\<close>; \<^verbatim>\<open>alignof (decltype (storage))\<close>;
  \<^verbatim>\<open>sizeof (local_erasure< t &, sig ... >)\<close>, the size of an erasure holding a reference;
  and \<^verbatim>\<open>sizeof (allocator_erasure< std::allocator< source >, source, sig ... >)\<close>.
\<close>

record abi =
  sizeof_storage :: nat
  alignof_storage :: nat
  sizeof_reference_erasure :: nat
  sizeof_std_allocator_erasure :: nat

definition std_allocator :: "abi \<Rightarrow> allocator" where
  "std_allocator abi = \<lparr>alloc_id = 0, sizeof_allocator_erasure = sizeof_std_allocator_erasure abi\<rparr>"

definition is_small :: "abi \<Rightarrow> ('v, 'a, 'r) type_desc \<Rightarrow> bool" where
  "is_small abi source \<longleftrightarrow>
     sizeof_local_erasure source \<le> sizeof_storage abi
     \<and> alignof_type source \<le> alignof_storage abi
     \<and> nothrow_move_constructible source"

text \<open>
  What a forwarding reference \<^verbatim>\<open>source &&\<close> deduces for an argument of type \<open>T\<close>:
  \<open>T\<close> for an rvalue and \<^verbatim>\<open>T &\<close> for an lvalue; a reference has the alignment of
  \<open>T\<close> and is nothrow-move-constructible.
\<close>

definition deduced :: "abi \<Rightarrow> ('v, 'a, 'r) type_desc \<Rightarrow> value_category \<Rightarrow> ('v, 'a, 'r) type_desc" where
  "deduced abi T c =
     (case c of
        rvalue \<Rightarrow> T
      | lvalue \<Rightarrow> T\<lparr>sizeof_local_erasure := sizeof_reference_erasure abi,
                     nothrow_move_constructible := True\<rparr>)"

text \<open>
  The argument of the constructor and of \<^verbatim>\<open>operator =\<close>: \<^verbatim>\<open>nullptr\<close>, another
  wrapper of the same signatures (\<^verbatim>\<open>is_compatibly_wrapped\<close>), or a value of a payload
  type.
\<close>

datatype ('v, 'a, 'r) source =
    from_nullptr
  | from_wrapper value_category "('v, 'a, 'r) wrapper_base"
  | from_value "('v, 'a, 'r) type_desc" value_category 'v

text \<open>
  Sequencing: go on after a return, handle a throw, and pass everything else up.
\<close>

definition continue ::
  "('x, 's) outcome \<Rightarrow> ('x \<Rightarrow> 's \<Rightarrow> ('y, 't) outcome) \<Rightarrow> (exn \<Rightarrow> 's \<Rightarrow> ('y, 't) outcome)
     \<Rightarrow> ('y, 't) outcome" where
  "continue r on_return on_throw =
     (case r of
        Normal x s \<Rightarrow> on_return x s
      | Throws e s \<Rightarrow> on_throw e s
      | Terminated \<Rightarrow> Terminated
      | Undefined_behaviour \<Rightarrow> Undefined_behaviour
      | Ill_formed \<Rightarrow> Ill_formed)"

text \<open>
  \<^verbatim>\<open>new (storage_address()) erasure( ... )\<close>: the erasure the constructor returns is
  in the storage; if the constructor throws, the storage is as it was.
\<close>

definition placement_new ::
  "('v, 'a, 'r) wrapper_base \<Rightarrow> (('v, 'a, 'r) erasure, 'v heap) outcome
     \<Rightarrow> (unit, ('v, 'a, 'r) wrapper_base \<times> 'v heap) outcome" where
  "placement_new w r =
     continue r (\<lambda>e h. Normal () (w\<lparr>storage := Some e\<rparr>, h)) (\<lambda>x h. Throws x (w, h))"

text \<open>\<^verbatim>\<open>void destroy() noexcept\<close>\<close>

definition destroy ::
  "signature list \<Rightarrow> ('v, 'a, 'r) wrapper_base \<Rightarrow> 'v heap
     \<Rightarrow> (unit, ('v, 'a, 'r) wrapper_base \<times> 'v heap) outcome" where
  "destroy sigs w h =
     (case storage w of
        None \<Rightarrow> Undefined_behaviour
      | Some e \<Rightarrow>
          continue (destructor_slot (table sigs e) e h)
            (\<lambda>u h'. Normal () (w\<lparr>storage := None\<rparr>, h'))
            (\<lambda>x h'. Terminated))"

text \<open>\<^verbatim>\<open>void init( std::nullptr_t = {} ) noexcept\<close>\<close>

definition init_nullptr :: "('v, 'a, 'r) wrapper_base \<Rightarrow> ('v, 'a, 'r) wrapper_base" where
  "init_nullptr w = w\<lparr>storage := Some null_erasure\<rparr>"

text \<open>
  \<^verbatim>\<open>operator =\<close> at \<^verbatim>\<open>source = std::nullptr_t\<close>, which \<^verbatim>\<open>init( wrapper_base && )\<close>
  calls: \<^verbatim>\<open>destroy()\<close>, then \<^verbatim>\<open>init( nullptr )\<close>; neither throws.
\<close>

definition assign_nullptr ::
  "signature list \<Rightarrow> ('v, 'a, 'r) wrapper_base \<Rightarrow> 'v heap
     \<Rightarrow> (unit, ('v, 'a, 'r) wrapper_base \<times> 'v heap) outcome" where
  "assign_nullptr sigs w h =
     continue (destroy sigs w h)
       (\<lambda>u (w1, h1). Normal () (init_nullptr w1, h1))
       (\<lambda>x s. Terminated)"

text \<open>
  \<^verbatim>\<open>void init( wrapper_base && o ) noexcept\<close>: the move entry of the table of \<open>o\<close>,
  then \<^verbatim>\<open>o = nullptr\<close>. The state is this wrapper, \<open>o\<close> and the memory.
\<close>

definition init_move ::
  "signature list \<Rightarrow> ('v, 'a, 'r) wrapper_base \<Rightarrow> ('v, 'a, 'r) wrapper_base \<Rightarrow> 'v heap
     \<Rightarrow> (unit, ('v, 'a, 'r) wrapper_base \<times> ('v, 'a, 'r) wrapper_base \<times> 'v heap) outcome" where
  "init_move sigs w other h =
     (case storage other of
        None \<Rightarrow> Undefined_behaviour
      | Some e \<Rightarrow>
          continue (move_constructor_slot (table sigs e) e h)
            (\<lambda>(dest, left) h1.
                continue (assign_nullptr sigs (other\<lparr>storage := Some left\<rparr>) h1)
                  (\<lambda>u (o2, h2). Normal () (w\<lparr>storage := Some dest\<rparr>, o2, h2))
                  (\<lambda>x s. Terminated))
            (\<lambda>x h1. Terminated))"

text \<open>
  \<^verbatim>\<open>void init( wrapper_base const & o )\<close>: the copy entry of the table of \<open>o\<close>; calling
  through a null entry is undefined.
\<close>

definition init_copy ::
  "signature list \<Rightarrow> ('v, 'a, 'r) wrapper_base \<Rightarrow> ('v, 'a, 'r) wrapper_base \<Rightarrow> 'v heap
     \<Rightarrow> (unit, ('v, 'a, 'r) wrapper_base \<times> 'v heap) outcome" where
  "init_copy sigs w other h =
     (case storage other of
        None \<Rightarrow> Undefined_behaviour
      | Some e \<Rightarrow>
          (case copy_constructor_slot (table sigs e) of
             None \<Rightarrow> Undefined_behaviour
           | Some copy \<Rightarrow> placement_new w (copy e h)))"

text \<open>
  Allocated erasures: \<^verbatim>\<open>init( std::allocator_arg_t, allocator const & alloc,
  any_piecewise_construct_tag< source >, arg && ... a )\<close> for a source that is not small,
  with its static assertion.
\<close>

definition init_allocated ::
  "abi \<Rightarrow> ('v, 'a, 'r) wrapper_base \<Rightarrow> allocator \<Rightarrow> ('v, 'a, 'r) type_desc
     \<Rightarrow> value_category \<Rightarrow> 'v \<Rightarrow> 'v heap
     \<Rightarrow> (unit, ('v, 'a, 'r) wrapper_base \<times> 'v heap) outcome" where
  "init_allocated abi w alloc T c a h =
     (if sizeof_allocator_erasure alloc \<le> sizeof_storage abi
      then placement_new w (new_allocator_erasure alloc T c a h)
      else Ill_formed)"

text \<open>
  \<^verbatim>\<open>init( any_piecewise_construct_tag< source >, arg && ... a )\<close> with one argument of
  type \<open>source\<close>. The overloads for \<^verbatim>\<open>t *\<close> and \<^verbatim>\<open>t c::*\<close> are more specialised than
  the two that \<^verbatim>\<open>is_small\<close> enables: they test the pointer and never read
  \<^verbatim>\<open>is_small\<close>. Both take the pointer by value and construct the target from that
  parameter.
\<close>

definition init_tag ::
  "abi \<Rightarrow> ('v, 'a, 'r) wrapper_base \<Rightarrow> ('v, 'a, 'r) type_desc \<Rightarrow> value_category \<Rightarrow> 'v
     \<Rightarrow> 'v heap \<Rightarrow> (unit, ('v, 'a, 'r) wrapper_base \<times> 'v heap) outcome" where
  "init_tag abi w T c a h =
     (case kind T of
        pointer_type \<Rightarrow>
          (if to_bool T a then placement_new w (new_local_erasure T lvalue a h)
           else Normal () (init_nullptr w, h))
      | member_pointer_type \<Rightarrow>
          (if to_bool T a then placement_new w (new_ptm_erasure T a h)
           else Normal () (init_nullptr w, h))
      | class_type \<Rightarrow>
          (if is_small abi T then placement_new w (new_local_erasure T c a h)
           else init_allocated abi w (std_allocator abi) T c a h))"

text \<open>
  \<^verbatim>\<open>init( std::allocator_arg_t, allocator const &, any_piecewise_construct_tag<
  source >, arg && ... a )\<close>: a small source ignores the allocator.
\<close>

definition init_allocator_arg_tag ::
  "abi \<Rightarrow> ('v, 'a, 'r) wrapper_base \<Rightarrow> allocator \<Rightarrow> ('v, 'a, 'r) type_desc
     \<Rightarrow> value_category \<Rightarrow> 'v \<Rightarrow> 'v heap
     \<Rightarrow> (unit, ('v, 'a, 'r) wrapper_base \<times> 'v heap) outcome" where
  "init_allocator_arg_tag abi w alloc T c a h =
     (if is_small abi T then init_tag abi w T c a h
      else init_allocated abi w alloc T c a h)"

text \<open>
  \<^verbatim>\<open>init\<close> with one argument: overload resolution picks \<^verbatim>\<open>init( std::nullptr_t )\<close>,
  \<^verbatim>\<open>init( wrapper_base && )\<close>, \<^verbatim>\<open>init( wrapper_base const & )\<close>, or
  \<^verbatim>\<open>init( source && s )\<close>, which passes on the decayed type. The state is this wrapper,
  the argument and the memory.
\<close>

definition init ::
  "abi \<Rightarrow> signature list \<Rightarrow> ('v, 'a, 'r) wrapper_base \<Rightarrow> ('v, 'a, 'r) source \<Rightarrow> 'v heap
     \<Rightarrow> (unit, ('v, 'a, 'r) wrapper_base \<times> ('v, 'a, 'r) source \<times> 'v heap) outcome" where
  "init abi sigs w s h =
     (case s of
        from_nullptr \<Rightarrow> Normal () (init_nullptr w, from_nullptr, h)
      | from_wrapper c other \<Rightarrow>
          (case c of
             rvalue \<Rightarrow>
               continue (init_move sigs w other h)
                 (\<lambda>u (w', o', h'). Normal () (w', from_wrapper rvalue o', h'))
                 (\<lambda>x (w', o', h'). Throws x (w', from_wrapper rvalue o', h'))
           | lvalue \<Rightarrow>
               continue (init_copy sigs w other h)
                 (\<lambda>u (w', h'). Normal () (w', s, h'))
                 (\<lambda>x (w', h'). Throws x (w', s, h')))
      | from_value T c a \<Rightarrow>
          continue (init_tag abi w T c a h)
            (\<lambda>u (w', h'). Normal () (w', s, h'))
            (\<lambda>x (w', h'). Throws x (w', s, h')))"

text \<open>
  The constructor \<^verbatim>\<open>wrapper_base( arg && ... a )\<close> with one argument, and with
  \<^verbatim>\<open>std::allocator_arg\<close>, an allocator and a value. If \<^verbatim>\<open>init\<close> throws there is no
  wrapper.
\<close>

definition new_wrapper_base ::
  "abi \<Rightarrow> signature list \<Rightarrow> ('v, 'a, 'r) source \<Rightarrow> 'v heap
     \<Rightarrow> (('v, 'a, 'r) wrapper_base, ('v, 'a, 'r) source \<times> 'v heap) outcome" where
  "new_wrapper_base abi sigs s h =
     continue (init abi sigs \<lparr>storage = None\<rparr> s h)
       (\<lambda>u (w, s', h'). Normal w (s', h'))
       (\<lambda>x (w, s', h'). Throws x (s', h'))"

definition new_wrapper_base_allocator_arg ::
  "abi \<Rightarrow> signature list \<Rightarrow> allocator \<Rightarrow> ('v, 'a, 'r) type_desc \<Rightarrow> value_category \<Rightarrow> 'v
     \<Rightarrow> 'v heap \<Rightarrow> (('v, 'a, 'r) wrapper_base, 'v heap) outcome" where
  "new_wrapper_base_allocator_arg abi sigs alloc T c a h =
     continue (init_allocator_arg_tag abi \<lparr>storage = None\<rparr> alloc T c a h)
       (\<lambda>u (w, h'). Normal w h')
       (\<lambda>x (w, h'). Throws x h')"

text \<open>
  The exception specification of \<^verbatim>\<open>operator =\<close>:
  \<^verbatim>\<open>noexcept( is_compatibly_wrapped< source >::value || is_small< source >::value )\<close>,
  on the deduced \<open>source\<close>. With \<^verbatim>\<open>std::nullptr_t\<close> nothing throws, whatever it is.
\<close>

fun assign_noexcept :: "abi \<Rightarrow> ('v, 'a, 'r) source \<Rightarrow> bool" where
  "assign_noexcept abi from_nullptr = True"
| "assign_noexcept abi (from_wrapper c other) = True"
| "assign_noexcept abi (from_value T c a) = is_small abi (deduced abi T c)"

text \<open>
  \<^verbatim>\<open>operator = ( source && s )\<close>, a function-try-block: \<^verbatim>\<open>destroy()\<close>, \<^verbatim>\<open>init( s )\<close>;
  the handler runs \<^verbatim>\<open>init()\<close> and rethrows. An exception that leaves a function
  whose exception specification is \<^verbatim>\<open>noexcept( true )\<close> ends in \<^verbatim>\<open>std::terminate\<close>.
\<close>

definition operator_assign ::
  "abi \<Rightarrow> signature list \<Rightarrow> ('v, 'a, 'r) wrapper_base \<Rightarrow> ('v, 'a, 'r) source \<Rightarrow> 'v heap
     \<Rightarrow> (unit, ('v, 'a, 'r) wrapper_base \<times> ('v, 'a, 'r) source \<times> 'v heap) outcome" where
  "operator_assign abi sigs w s h =
     continue (destroy sigs w h)
       (\<lambda>u (w1, h1).
           continue (init abi sigs w1 s h1)
             (\<lambda>u st. Normal () st)
             (\<lambda>x (w2, s2, h2).
                 if assign_noexcept abi s then Terminated
                 else Throws x (init_nullptr w2, s2, h2)))
       (\<lambda>x st. Terminated)"

text \<open>
  The queries. Each reads \<^verbatim>\<open>erasure()\<close>; \<open>None\<close> is the undefined read of a storage
  that holds no erasure. \<open>want\<close> is \<^verbatim>\<open>typeid (want)\<close>.
\<close>

definition target_type :: "signature list \<Rightarrow> ('v, 'a, 'r) wrapper_base \<Rightarrow> type_info option" where
  "target_type sigs w = map_option (\<lambda>e. target_type_slot (table sigs e)) (storage w)"

definition target ::
  "signature list \<Rightarrow> type_info \<Rightarrow> ('v, 'a, 'r) wrapper_base \<Rightarrow> pointer option" where
  "target sigs want w =
     (case storage w of
        None \<Rightarrow> None
      | Some e \<Rightarrow>
          (if Some want \<noteq> target_type sigs w then Some nullptr
           else target_access_slot (table sigs e) e))"

definition operator_bool :: "signature list \<Rightarrow> ('v, 'a, 'r) wrapper_base \<Rightarrow> bool option" where
  "operator_bool sigs w = map_option (\<lambda>t. t \<noteq> typeid_void) (target_type sigs w)"

text \<open>What a pointer returned by \<^verbatim>\<open>target\<close> points to.\<close>

fun pointee :: "('v, 'a, 'r) wrapper_base \<Rightarrow> 'v heap \<Rightarrow> pointer \<Rightarrow> 'v option" where
  "pointee w h nullptr = None"
| "pointee w h member_target =
     (case storage w of
        Some (local_erasure T v) \<Rightarrow> Some v
      | Some (ptm_erasure T v) \<Rightarrow> Some v
      | _ \<Rightarrow> None)"
| "pointee w h (allocated a) = objects h a"

text \<open>
  The body of \<^verbatim>\<open>WRAPPER_CASE\<close>: the entry \<^verbatim>\<open>base_index + table_index\<close> of the table
  of the erasure, applied to the erasure.
\<close>

definition wrapper_case ::
  "signature list \<Rightarrow> nat \<Rightarrow> ('v, 'a, 'r) wrapper_base \<Rightarrow> 'a \<Rightarrow> 'v heap
     \<Rightarrow> ('r, ('v, 'a, 'r) wrapper_base \<times> 'v heap) outcome" where
  "wrapper_case sigs table_index w a h =
     (case storage w of
        None \<Rightarrow> Undefined_behaviour
      | Some e \<Rightarrow>
          (if table_index < length (dispatchers (table sigs e))
           then continue ((dispatchers (table sigs e) ! table_index) e a h)
                  (\<lambda>r (e', h'). Normal r (w\<lparr>storage := Some e'\<rparr>, h'))
                  (\<lambda>x (e', h'). Throws x (w\<lparr>storage := Some e'\<rparr>, h'))
           else Ill_formed))"

text \<open>
  A call \<^verbatim>\<open>w( a ... )\<close> on an object expression of path \<open>p\<close>, with arguments that
  select \<open>sid\<close>. The fallback operator calls the wrapper again as a non-const lvalue:
  \<^verbatim>\<open>const_cast< derived & >( static_cast< derived const & >( * this ) )( ... )\<close>.
  The first argument bounds the depth of such calls; \<open>None\<close> is running out of it.
\<close>

fun invoke ::
  "nat \<Rightarrow> signature list \<Rightarrow> path \<Rightarrow> nat \<Rightarrow> ('v, 'a, 'r) wrapper_base \<Rightarrow> 'a \<Rightarrow> 'v heap
     \<Rightarrow> ('r, ('v, 'a, 'r) wrapper_base \<times> 'v heap) outcome option" where
  "invoke 0 sigs p sid w a h = None"
| "invoke (Suc n) sigs p sid w a h =
     (case resolve (wrapper_dispatch 0 (map declared sigs)) p sid of
        None \<Rightarrow> Some Ill_formed
      | Some (table_operator s table_index) \<Rightarrow> Some (wrapper_case sigs table_index w a h)
      | Some (const_unsafe_operator i) \<Rightarrow> invoke n sigs mutable_lvalue sid w a h)"

subsection \<open>Concrete payloads\<close>

text \<open>
  An implementation with eight-byte pointers: the storage has 32 bytes; an erasure is
  the table reference followed by its members.
\<close>

definition lp64 :: abi where
  "lp64 = \<lparr>sizeof_storage = 32, alignof_storage = 16, sizeof_reference_erasure = 16,
     sizeof_std_allocator_erasure = 16\<rparr>"

text \<open>
  Payload values are numbers, argument lists are pairs of integers, results are
  integers. The type \<^verbatim>\<open>int (*)( int, int )\<close>: the value \<open>0\<close> is the null pointer, every
  other value points to \<^verbatim>\<open>int add( int, int )\<close>.
\<close>

definition function_pointer :: "(nat, int \<times> int, int) type_desc" where
  "function_pointer =
     \<lparr>type_id = 1, kind = pointer_type, sizeof_local_erasure = 16, alignof_type = 8,
      nothrow_move_constructible = True, copy_constructible = True,
      to_bool = (\<lambda>v. v \<noteq> 0), copy_throws = (\<lambda>v. None), move_throws = (\<lambda>v. None),
      call = (\<lambda>p sid v (x, y). (Inr (x + y), v))\<rparr>"

text \<open>
  A closure of 64 bytes, too large for the storage, with two call operators: the
  const one returns \<open>2\<close>, the other one returns \<open>1\<close>.
\<close>

definition large_functor :: "(nat, int \<times> int, int) type_desc" where
  "large_functor =
     \<lparr>type_id = 2, kind = class_type, sizeof_local_erasure = 72, alignof_type = 8,
      nothrow_move_constructible = True, copy_constructible = True,
      to_bool = (\<lambda>v. True), copy_throws = (\<lambda>v. None), move_throws = (\<lambda>v. None),
      call = (\<lambda>p sid v a. (if p_const p then Inr 2 else Inr 1, v))\<rparr>"

text \<open>The same two call operators in a closure of eight bytes.\<close>

definition small_functor :: "(nat, int \<times> int, int) type_desc" where
  "small_functor =
     \<lparr>type_id = 6, kind = class_type, sizeof_local_erasure = 16, alignof_type = 8,
      nothrow_move_constructible = True, copy_constructible = True,
      to_bool = (\<lambda>v. True), copy_throws = (\<lambda>v. None), move_throws = (\<lambda>v. None),
      call = (\<lambda>p sid v a. (if p_const p then Inr 2 else Inr 1, v))\<rparr>"

text \<open>A small functor whose copy constructor throws and whose call returns \<open>0\<close>.\<close>

definition throwing_copy :: "(nat, int \<times> int, int) type_desc" where
  "throwing_copy =
     \<lparr>type_id = 3, kind = class_type, sizeof_local_erasure = 16, alignof_type = 8,
      nothrow_move_constructible = True, copy_constructible = True,
      to_bool = (\<lambda>v. True), copy_throws = (\<lambda>v. Some (user_exception 7)),
      move_throws = (\<lambda>v. None),
      call = (\<lambda>p sid v a. (Inr 0, v))\<rparr>"

text \<open>
  A small functor that throws \<^verbatim>\<open>std::bad_function_call\<close> when called, as an empty
  \<^verbatim>\<open>std::function\<close> does.
\<close>

definition empty_std_function :: "(nat, int \<times> int, int) type_desc" where
  "empty_std_function =
     \<lparr>type_id = 4, kind = class_type, sizeof_local_erasure = 32, alignof_type = 8,
      nothrow_move_constructible = True, copy_constructible = True,
      to_bool = (\<lambda>v. True), copy_throws = (\<lambda>v. None), move_throws = (\<lambda>v. None),
      call = (\<lambda>p sid v a. (Inl bad_function_call, v))\<rparr>"

text \<open>A small functor that can be moved and not copied.\<close>

definition move_only :: "(nat, int \<times> int, int) type_desc" where
  "move_only =
     \<lparr>type_id = 5, kind = class_type, sizeof_local_erasure = 16, alignof_type = 8,
      nothrow_move_constructible = True, copy_constructible = False,
      to_bool = (\<lambda>v. True), copy_throws = (\<lambda>v. None), move_throws = (\<lambda>v. None),
      call = (\<lambda>p sid v a. (Inr 0, v))\<rparr>"

text \<open>
  The signatures \<^verbatim>\<open>int( int, int )\<close>, \<^verbatim>\<open>int( int, int ) const\<close> and
  \<^verbatim>\<open>int( int, int ) volatile\<close>.
\<close>

definition plain_sig :: signature where
  "plain_sig = \<lparr>sig_id = 0, sig_quals = unqualified\<rparr>"

definition const_sig :: signature where
  "const_sig = \<lparr>sig_id = 0,
     sig_quals = \<lparr>q_const = True, q_volatile = False, q_ref = no_ref\<rparr>\<rparr>"

definition volatile_sig :: signature where
  "volatile_sig = \<lparr>sig_id = 0,
     sig_quals = \<lparr>q_const = False, q_volatile = True, q_ref = no_ref\<rparr>\<rparr>"

text \<open>
  The signatures \<^verbatim>\<open>int( int, int ) &\<close> and \<^verbatim>\<open>int( int, int ) &&\<close>, and the object
  expressions that are a const volatile lvalue and a volatile lvalue.
\<close>

definition lvalue_sig :: signature where
  "lvalue_sig = \<lparr>sig_id = 0,
     sig_quals = \<lparr>q_const = False, q_volatile = False, q_ref = lvalue_ref\<rparr>\<rparr>"

definition rvalue_sig :: signature where
  "rvalue_sig = \<lparr>sig_id = 0,
     sig_quals = \<lparr>q_const = False, q_volatile = False, q_ref = rvalue_ref\<rparr>\<rparr>"

definition const_volatile_lvalue :: path where
  "const_volatile_lvalue = \<lparr>p_const = True, p_volatile = True, p_rvalue = False\<rparr>"

definition volatile_lvalue :: path where
  "volatile_lvalue = \<lparr>p_const = False, p_volatile = True, p_rvalue = False\<rparr>"

text \<open>A memory with nothing allocated, in which \<open>n\<close> allocations succeed.\<close>

definition fresh_heap :: "nat \<Rightarrow> nat heap" where
  "fresh_heap n = \<lparr>objects = Map.empty, log = [], next_addr = 0, remaining = n\<rparr>"

text \<open>The memory after the large closure has been constructed at address \<open>0\<close>.\<close>

definition one_block :: "nat heap" where
  "one_block = \<lparr>objects = [0 \<mapsto> 0], log = [Allocate 0 1 0, Construct 0 0], next_addr = 1,
     remaining = 0\<rparr>"

section \<open>Properties\<close>

subsection \<open>Auxiliary facts\<close>

lemma continue_simps:
  "continue (Normal x s) f g = f x s"
  "continue (Throws e s) f g = g e s"
  "continue Terminated f g = Terminated"
  "continue Undefined_behaviour f g = Undefined_behaviour"
  "continue Ill_formed f g = Ill_formed"
  by (simp_all add: continue_def)

lemma DISPATCH_TABLE_slots:
  "destructor_slot (DISPATCH_TABLE ty d sigs) = erasure_special_destroy"
  "move_constructor_slot (DISPATCH_TABLE ty d sigs) = erasure_special_move"
  "copy_constructor_slot (DISPATCH_TABLE ty d sigs) = Some erasure_special_copy"
  "target_access_slot (DISPATCH_TABLE ty d sigs) = target_access"
  "target_type_slot (DISPATCH_TABLE ty d sigs) = ty"
  "dispatchers (DISPATCH_TABLE ty d sigs) = map d sigs"
  by (simp_all add: DISPATCH_TABLE_def)

lemma target_type_table:
  "target_type_slot (table sigs e) =
     (case e of null_erasure \<Rightarrow> typeid_void
      | local_erasure T v \<Rightarrow> typeid_of (type_id T)
      | ptm_erasure T v \<Rightarrow> typeid_of (type_id T)
      | allocator_erasure al T p \<Rightarrow> typeid_of (type_id T))"
  by (cases e) (simp_all add: DISPATCH_TABLE_def)

lemma operator_bool_False_iff:
  "operator_bool sigs c = Some False \<longleftrightarrow> storage c = Some null_erasure"
  by (cases "storage c")
     (auto simp: operator_bool_def target_type_def target_type_table split: erasure.splits)

lemma new_allocator_erasure_Normal:
  assumes "new_allocator_erasure al T c v h = Normal e h'"
  shows "e = allocator_erasure al T (Some (next_addr h)) \<and> objects h' (next_addr h) = Some v
         \<and> log h' = log h @ [Allocate (alloc_id al) 1 (next_addr h), Construct (alloc_id al) (next_addr h)]"
  using assms
  by (auto simp: new_allocator_erasure_def allocate_def construct_def
           split: if_splits option.splits outcome.splits)

lemma new_local_erasure_Normal:
  "new_local_erasure T c v h = Normal e h' \<Longrightarrow> e = local_erasure T v \<and> h' = h"
  by (auto simp: new_local_erasure_def split: if_splits option.splits)

lemma new_ptm_erasure_Normal:
  "new_ptm_erasure T v h = Normal e h' \<Longrightarrow> e = ptm_erasure T v \<and> h' = h"
  by (auto simp: new_ptm_erasure_def split: if_splits option.splits)

lemma placement_new_Normal:
  "placement_new w r = Normal u (w', h') \<longleftrightarrow> (\<exists>e. r = Normal e h' \<and> w' = w\<lparr>storage := Some e\<rparr>)"
  by (cases r) (auto simp: placement_new_def continue_def)

text \<open>What a wrapper holds: the payload of the erasure in its storage.\<close>

lemma init_tag_Normal:
  assumes "init_tag abi w0 T c v h = Normal u (w, h')"
  shows "(storage w = Some null_erasure \<and> kind T \<noteq> class_type \<and> \<not> to_bool T v)
       \<or> storage w = Some (local_erasure T v)
       \<or> storage w = Some (ptm_erasure T v)
       \<or> (\<exists>al a. storage w = Some (allocator_erasure al T (Some a)) \<and> objects h' a = Some v)"
  using assms
  by (auto simp: init_tag_def init_allocated_def placement_new_Normal init_nullptr_def
           split: category.splits if_splits
           dest!: new_allocator_erasure_Normal new_local_erasure_Normal new_ptm_erasure_Normal)


lemma init_allocator_arg_tag_Normal:
  assumes "init_allocator_arg_tag abi w0 al T c v h = Normal u (w, h')"
  shows "(storage w = Some null_erasure \<and> kind T \<noteq> class_type \<and> \<not> to_bool T v)
       \<or> storage w = Some (local_erasure T v)
       \<or> storage w = Some (ptm_erasure T v)
       \<or> (\<exists>al a. storage w = Some (allocator_erasure al T (Some a)) \<and> objects h' a = Some v)"
proof (cases "is_small abi T")
  case True
  with assms have "init_tag abi w0 T c v h = Normal u (w, h')"
    by (simp add: init_allocator_arg_tag_def)
  then show ?thesis by (rule init_tag_Normal)
next
  case False
  with assms show ?thesis
    by (auto simp: init_allocator_arg_tag_def init_allocated_def placement_new_Normal
             split: if_splits dest!: new_allocator_erasure_Normal)
qed

lemma init_value_Normal:
  "init abi sigs w0 (from_value T c v) h = Normal u (w, s, h')
   \<Longrightarrow> init_tag abi w0 T c v h = Normal () (w, h') \<and> s = from_value T c v"
  by (cases "init_tag abi w0 T c v h") (auto simp: init_def continue_def)

lemma new_wrapper_base_value_Normal:
  "new_wrapper_base abi sigs (from_value T c v) h = Normal w (s, h')
   \<Longrightarrow> init_tag abi \<lparr>storage = None\<rparr> T c v h = Normal () (w, h')"
  by (cases "init abi sigs \<lparr>storage = None\<rparr> (from_value T c v) h")
     (auto simp: new_wrapper_base_def continue_def dest: init_value_Normal)

lemma new_wrapper_base_allocator_arg_Normal:
  "new_wrapper_base_allocator_arg abi sigs al T c v h = Normal w h'
   \<Longrightarrow> init_allocator_arg_tag abi \<lparr>storage = None\<rparr> al T c v h = Normal () (w, h')"
  by (cases "init_allocator_arg_tag abi \<lparr>storage = None\<rparr> al T c v h")
     (auto simp: new_wrapper_base_allocator_arg_def continue_def)

lemma operator_assign_value_Normal:
  assumes "operator_assign abi sigs w0 (from_value T c v) h = Normal u (w, s, h')"
  shows "\<exists>w1 h1. destroy sigs w0 h = Normal () (w1, h1)
           \<and> init_tag abi w1 T c v h1 = Normal () (w, h')"
proof (cases "destroy sigs w0 h")
  case (Normal x st)
  obtain w1 h1 where st: "st = (w1, h1)" by (cases st)
  with Normal assms have "init abi sigs w1 (from_value T c v) h1 = Normal u (w, s, h')"
    by (cases "init abi sigs w1 (from_value T c v) h1")
       (auto simp: operator_assign_def continue_def split: if_splits)
  with Normal st show ?thesis by (auto dest: init_value_Normal)
qed (use assms in \<open>simp_all add: operator_assign_def continue_def\<close>)

lemma payload_target:
  assumes "storage w = Some (local_erasure T v) \<or> storage w = Some (ptm_erasure T v)
         \<or> (\<exists>al a. storage w = Some (allocator_erasure al T (Some a)) \<and> objects h' a = Some v)"
  shows "(\<exists>p. target sigs (typeid_of (type_id T)) w = Some p \<and> p \<noteq> nullptr
              \<and> pointee w h' p = Some v)
       \<and> (\<forall>U. U \<noteq> typeid_of (type_id T) \<longrightarrow> target sigs U w = Some nullptr)"
  using assms by (auto simp: target_def target_type_def DISPATCH_TABLE_slots)

text \<open>Unfolding the embedding at a concrete input.\<close>

lemmas eval_defs =
  new_wrapper_base_def init_def init_tag_def init_allocated_def placement_new_def
  new_local_erasure_def new_allocator_erasure_def table_instantiates_def allocate_def
  construct_def construct_from_def
  continue_simps is_small_def lp64_def std_allocator_def fresh_heap_def
  init_nullptr_def destroy_def assign_nullptr_def init_move_def init_copy_def
  operator_assign_def DISPATCH_TABLE_slots deduced_def destroy_at_def one_block_def

lemmas call_defs =
  resolve_def viable_def better_def cv_le_def unqualified_def mutable_lvalue_def const_lvalue_def
  wrapper_case_def DISPATCH_TABLE_slots continue_simps returned_def add_reference_def
  plain_sig_def const_sig_def volatile_sig_def lvalue_sig_def rvalue_sig_def
  const_volatile_lvalue_def volatile_lvalue_def

subsection \<open>The operators of the wrapper\<close>

lemma wrapper_dispatch_unsafe_only:
  "wrapper_dispatch n (map const_unsafe_case js) = map const_unsafe_operator js"
  by (induction js) simp_all

text \<open>The operators of a wrapper: one per declared signature, then the fallbacks.\<close>

lemma wrapper_dispatch_closed_form:
  "wrapper_dispatch n (map declared sigs @ map const_unsafe_case js) =
     map (\<lambda>(i, s). table_operator s i) (enumerate n sigs)
     @ map const_unsafe_operator
         (js @ map sig_id (filter (\<lambda>s. sig_quals s = unqualified) sigs))"
proof (induction sigs arbitrary: n js)
  case Nil
  then show ?case by (simp add: wrapper_dispatch_unsafe_only)
next
  case (Cons s sigs)
  show ?case
  proof (cases "sig_quals s = unqualified")
    case True
    have "wrapper_dispatch n (map declared (s # sigs) @ map const_unsafe_case js) =
        table_operator s n
          # wrapper_dispatch (Suc n) (map declared sigs @ map const_unsafe_case (js @ [sig_id s]))"
      using True by simp
    with Cons.IH [of "Suc n" "js @ [sig_id s]"] True show ?thesis by simp
  next
    case False
    then show ?thesis by (simp add: Cons.IH)
  qed
qed

lemma wrapper_dispatch_declared:
  "wrapper_dispatch 0 (map declared sigs) =
     map (\<lambda>(i, s). table_operator s i) (enumerate 0 sigs)
     @ map const_unsafe_operator (map sig_id (filter (\<lambda>s. sig_quals s = unqualified) sigs))"
  using wrapper_dispatch_closed_form [of 0 sigs "[]"] by simp

lemma table_operator_in_dispatch:
  "table_operator s i \<in> set (wrapper_dispatch 0 (map declared sigs))
     \<longleftrightarrow> i < length sigs \<and> sigs ! i = s"
  by (auto simp: wrapper_dispatch_declared in_set_enumerate_eq)

lemma const_unsafe_operator_in_dispatch:
  "const_unsafe_operator j \<in> set (wrapper_dispatch 0 (map declared sigs))
     \<longleftrightarrow> (\<exists>s \<in> set sigs. sig_quals s = unqualified \<and> sig_id s = j)"
  by (auto simp: wrapper_dispatch_declared)

lemma resolve_SomeD:
  assumes "resolve ops p sid = Some w"
  shows "w \<in> set ops" "op_sig_id w = sid" "viable (op_quals w) p"
    "\<forall>d \<in> set ops. op_sig_id d = sid \<and> viable (op_quals d) p
        \<longrightarrow> op_quals d = op_quals w \<or> better p (op_quals w) (op_quals d)"
  using assms
  by (auto simp: resolve_def Let_def find_Some_iff list_all_iff dest: nth_mem)


text \<open>From a non-const, non-volatile object the fallback is never chosen.\<close>

lemma resolve_mutable_not_unsafe:
  assumes "\<not> p_const p" "\<not> p_volatile p"
  shows "resolve (wrapper_dispatch 0 (map declared sigs)) p sid \<noteq> Some (const_unsafe_operator j)"
proof
  assume r: "resolve (wrapper_dispatch 0 (map declared sigs)) p sid = Some (const_unsafe_operator j)"
  from resolve_SomeD(1,2) [OF r] obtain s where s: "s \<in> set sigs" "sig_quals s = unqualified"
      "sig_id s = sid"
    by (auto simp: const_unsafe_operator_in_dispatch)
  then obtain i where i: "i < length sigs" "sigs ! i = s" by (auto simp: in_set_conv_nth)
  then have "table_operator s i \<in> set (wrapper_dispatch 0 (map declared sigs))"
    by (simp add: table_operator_in_dispatch)
  moreover have "viable (op_quals (table_operator s i)) p"
    using assms s by (simp add: viable_def unqualified_def)
  ultimately have "op_quals (table_operator s i) = op_quals (const_unsafe_operator j)
      \<or> better p (op_quals (const_unsafe_operator j)) (op_quals (table_operator s i))"
    using resolve_SomeD(4) [OF r] s by auto
  then show False using s by (auto simp: unqualified_def better_def cv_le_def)
qed

text \<open>Two levels of calls are enough: a call either does not compile or runs a table entry.\<close>

lemma invoke_enough_fuel:
  "invoke (Suc (Suc n)) sigs p sid w a h = Some Ill_formed
   \<or> (\<exists>i < length sigs. sig_id (sigs ! i) = sid
         \<and> invoke (Suc (Suc n)) sigs p sid w a h = Some (wrapper_case sigs i w a h))"
proof (cases "resolve (wrapper_dispatch 0 (map declared sigs)) p sid")
  case None
  then show ?thesis by simp
next
  case (Some c)
  show ?thesis
  proof (cases c)
    case (table_operator s i)
    with Some resolve_SomeD(1,2) [OF Some] show ?thesis
      by (auto simp: table_operator_in_dispatch)
  next
    case (const_unsafe_operator j)
    have m: "\<not> p_const mutable_lvalue" "\<not> p_volatile mutable_lvalue"
      by (simp_all add: mutable_lvalue_def)
    show ?thesis
    proof (cases "resolve (wrapper_dispatch 0 (map declared sigs)) mutable_lvalue sid")
      case None
      with Some const_unsafe_operator show ?thesis by simp
    next
      case inner: (Some c')
      show ?thesis
      proof (cases c')
        case (table_operator s i)
        with Some const_unsafe_operator inner resolve_SomeD(1,2) [OF inner] show ?thesis
          by (auto simp: table_operator_in_dispatch)
      next
        case (const_unsafe_operator j')
        with inner resolve_mutable_not_unsafe [OF m] show ?thesis by blast
      qed
    qed
  qed
qed


subsection \<open>Invocation\<close>

text \<open>
  What a table entry does with the payload: \<^verbatim>\<open>LOCAL_CASE\<close> calls the member
  \<^verbatim>\<open>target\<close> of \<^verbatim>\<open>* this\<close> cast to \<^verbatim>\<open>derived QUALS\<close>, so the qualifiers of the
  signature reach the payload; \<^verbatim>\<open>ALLOCATOR_CASE\<close> casts likewise and then
  dereferences the pointer \<^verbatim>\<open>target\<close>, which yields a non-const lvalue whatever the
  qualifiers are.
\<close>

lemma inline_call_applies_qualifiers:
  "i < length sigs \<Longrightarrow>
   wrapper_case sigs i \<lparr>storage = Some (local_erasure T v)\<rparr> a h =
     (case call T (add_reference (sig_quals (sigs ! i))) (sig_id (sigs ! i)) v a of
        (res, v') \<Rightarrow> returned res (\<lparr>storage = Some (local_erasure T v')\<rparr>, h))"
  by (simp add: wrapper_case_def DISPATCH_TABLE_slots returned_def continue_def
           split: prod.splits sum.splits)

lemma allocated_call_is_unqualified:
  "i < length sigs \<Longrightarrow> objects h p = Some v \<Longrightarrow>
   wrapper_case sigs i \<lparr>storage = Some (allocator_erasure al T (Some p))\<rparr> a h =
     (case call T mutable_lvalue (sig_id (sigs ! i)) v a of
        (res, v') \<Rightarrow> returned res (\<lparr>storage = Some (allocator_erasure al T (Some p))\<rparr>,
                                  h\<lparr>objects := (objects h)(p \<mapsto> v')\<rparr>))"
  by (simp add: wrapper_case_def DISPATCH_TABLE_slots returned_def continue_def
           split: prod.splits sum.splits)

text \<open>
  C1. Invoking a wrapper built from a value should return what calling the value
  directly returns. For a wrapper declared \<^verbatim>\<open>int( int, int ) const\<close> and the closure with
  two call operators it does when the closure is small and stored inline: the call
  returns \<open>2\<close>, as the const operator of the closure does. When the closure is large
  and stored through the allocator, the same call returns \<open>1\<close>: the non-const operator
  ran.
\<close>

theorem allocator_call_drops_qualifiers:
  "call large_functor (add_reference (sig_quals const_sig)) (sig_id const_sig) 0 (2, 3)
     = (Inr 2, 0)
   \<and> new_wrapper_base lp64 [const_sig] (from_value large_functor lvalue 0) (fresh_heap 1)
     = Normal \<lparr>storage = Some (allocator_erasure (std_allocator lp64) large_functor (Some 0))\<rparr>
         (from_value large_functor lvalue 0, one_block)
   \<and> invoke (Suc 0) [const_sig] const_lvalue 0
        \<lparr>storage = Some (allocator_erasure (std_allocator lp64) large_functor (Some 0))\<rparr> (2, 3)
        one_block
     = Some (Normal 1
         (\<lparr>storage = Some (allocator_erasure (std_allocator lp64) large_functor (Some 0))\<rparr>,
          one_block))
   \<and> new_wrapper_base lp64 [const_sig] (from_value small_functor lvalue 0) (fresh_heap 1)
     = Normal \<lparr>storage = Some (local_erasure small_functor 0)\<rparr>
         (from_value small_functor lvalue 0, fresh_heap 1)
   \<and> invoke (Suc 0) [const_sig] const_lvalue 0
        \<lparr>storage = Some (local_erasure small_functor 0)\<rparr> (2, 3) (fresh_heap 1)
     = Some (Normal 2 (\<lparr>storage = Some (local_erasure small_functor 0)\<rparr>, fresh_heap 1))"
  by (simp add: eval_defs call_defs large_functor_def small_functor_def)

subsection \<open>The empty wrapper\<close>

text \<open>
  C2, amended. The conversion to \<^verbatim>\<open>bool\<close> of a wrapper is false exactly when its
  target type is \<^verbatim>\<open>typeid (void)\<close>; and then the operator of every declared signature
  throws \<^verbatim>\<open>std::bad_function_call\<close> and leaves the wrapper as it was, and every call
  expression that compiles does so.
\<close>

theorem empty_iff_no_type_and_raises:
  "(operator_bool sigs c = Some False \<longleftrightarrow> target_type sigs c = Some typeid_void)
   \<and> (operator_bool sigs c = Some False \<longrightarrow>
        (\<forall>i < length sigs. wrapper_case sigs i c a h = Throws bad_function_call (c, h))
        \<and> (invoke (Suc (Suc n)) sigs p sid c a h = Some Ill_formed
           \<or> invoke (Suc (Suc n)) sigs p sid c a h = Some (Throws bad_function_call (c, h))))"
proof -
  have t: "operator_bool sigs c = Some False \<longleftrightarrow> target_type sigs c = Some typeid_void"
    by (cases "storage c") (auto simp: operator_bool_def target_type_def)
  have r: "wrapper_case sigs i c a h = Throws bad_function_call (c, h)"
    if "operator_bool sigs c = Some False" "i < length sigs" for i
    using that
    by (simp add: operator_bool_False_iff wrapper_case_def DISPATCH_TABLE_slots continue_simps)
  from t r invoke_enough_fuel [of n sigs p sid c a h] show ?thesis by auto
qed

theorem empty_iff_no_type_and_raises_witness:
  "operator_bool [plain_sig] (\<lparr>storage = Some null_erasure\<rparr> :: (nat, int \<times> int, int) wrapper_base)
     = Some False
   \<and> target_type [plain_sig] (\<lparr>storage = Some null_erasure\<rparr> :: (nat, int \<times> int, int) wrapper_base)
     = Some typeid_void
   \<and> wrapper_case [plain_sig] 0 \<lparr>storage = Some null_erasure\<rparr> (2, 3) (fresh_heap 0)
     = (Throws bad_function_call (\<lparr>storage = Some null_erasure\<rparr>, fresh_heap 0)
         :: (int, (nat, int \<times> int, int) wrapper_base \<times> nat heap) outcome)
   \<and> invoke (Suc (Suc 0)) [plain_sig] mutable_lvalue 0 \<lparr>storage = Some null_erasure\<rparr> (2, 3)
        (fresh_heap 0)
     = Some (Throws bad_function_call (\<lparr>storage = Some null_erasure\<rparr>, fresh_heap 0)
         :: (int, (nat, int \<times> int, int) wrapper_base \<times> nat heap) outcome)"
proof -
  have e: "operator_bool [plain_sig]
      (\<lparr>storage = Some null_erasure\<rparr> :: (nat, int \<times> int, int) wrapper_base) = Some False"
    by (simp add: operator_bool_def target_type_def DISPATCH_TABLE_slots)
  have c: "invoke (Suc (Suc 0)) [plain_sig] mutable_lvalue 0
      (\<lparr>storage = Some null_erasure\<rparr> :: (nat, int \<times> int, int) wrapper_base) (2, 3)
      (fresh_heap 0) \<noteq> Some (Ill_formed :: (int, _) outcome)"
    by (simp add: call_defs)
  from empty_iff_no_type_and_raises [of "[plain_sig]"
      "\<lparr>storage = Some null_erasure\<rparr> :: (nat, int \<times> int, int) wrapper_base"
      "(2, 3)" "fresh_heap 0" 0 mutable_lvalue 0] e c
  show ?thesis by simp
qed

text \<open>
  The claim as stated has the converse too. It fails: a wrapper built from a functor
  that itself throws \<^verbatim>\<open>std::bad_function_call\<close> is not empty, and invoking it raises
  that error.
\<close>

theorem payload_raises_bad_function_call:
  "new_wrapper_base lp64 [plain_sig] (from_value empty_std_function rvalue 0) (fresh_heap 0)
     = Normal \<lparr>storage = Some (local_erasure empty_std_function 0)\<rparr>
         (from_value empty_std_function rvalue 0, fresh_heap 0)
   \<and> operator_bool [plain_sig] \<lparr>storage = Some (local_erasure empty_std_function 0)\<rparr>
     = Some True
   \<and> target_type [plain_sig] \<lparr>storage = Some (local_erasure empty_std_function 0)\<rparr>
     \<noteq> Some typeid_void
   \<and> invoke (Suc (Suc 0)) [plain_sig] mutable_lvalue 0
        \<lparr>storage = Some (local_erasure empty_std_function 0)\<rparr> (2, 3) (fresh_heap 0)
     = Some (Throws bad_function_call
         (\<lparr>storage = Some (local_erasure empty_std_function 0)\<rparr>, fresh_heap 0))"
  by (simp add: eval_defs call_defs operator_bool_def target_type_def empty_std_function_def)

subsection \<open>Assignment\<close>

text \<open>
  C3. If constructing the new target throws during an assignment, the wrapper should
  be empty afterwards and the caller should see the exception. The handler of
  \<^verbatim>\<open>operator =\<close> does both, and that is the outcome for an rvalue of a type that is
  not small (last conjunct: the allocation fails). But for another wrapper as the
  source, and for an lvalue, whose deduced type is a reference, the exception
  specification is \<^verbatim>\<open>noexcept( true )\<close>: when the copy constructor of the payload
  throws, the rethrown exception ends in \<^verbatim>\<open>std::terminate\<close>.
\<close>

theorem copy_assignment_terminates:
  "copy_throws throwing_copy 0 = Some (user_exception 7)
   \<and> operator_assign lp64 [plain_sig] \<lparr>storage = Some (local_erasure function_pointer 1)\<rparr>
        (from_wrapper lvalue \<lparr>storage = Some (local_erasure throwing_copy 0)\<rparr>) (fresh_heap 0)
     = Terminated
   \<and> operator_assign lp64 [plain_sig] \<lparr>storage = Some (local_erasure function_pointer 1)\<rparr>
        (from_value throwing_copy lvalue 0) (fresh_heap 0)
     = Terminated
   \<and> operator_assign lp64 [plain_sig] \<lparr>storage = Some (local_erasure function_pointer 1)\<rparr>
        (from_value large_functor rvalue 0) (fresh_heap 0)
     = Throws bad_alloc
         (\<lparr>storage = Some null_erasure\<rparr>, from_value large_functor rvalue 0, fresh_heap 0)"
  by (simp add: eval_defs throwing_copy_def large_functor_def)

subsection \<open>Target access\<close>

text \<open>
  C4. A non-empty wrapper built or assigned from a value \<open>v\<close> of type \<open>T\<close>:
  \<^verbatim>\<open>target< T >()\<close> returns a non-null pointer to a value equal to \<open>v\<close>, and
  \<^verbatim>\<open>target< U >()\<close> returns null for every \<open>U\<close> whose \<^verbatim>\<open>typeid\<close> is not that of
  \<open>T\<close>.
\<close>

theorem target_round_trip:
  assumes built:
      "new_wrapper_base abi sigs (from_value T c v) h = Normal w (s, h')
     \<or> new_wrapper_base_allocator_arg abi sigs al T c v h = Normal w h'
     \<or> operator_assign abi sigs w0 (from_value T c v) h = Normal () (w, s, h')"
    and nonempty: "operator_bool sigs w = Some True"
  shows "(\<exists>p. target sigs (typeid_of (type_id T)) w = Some p \<and> p \<noteq> nullptr
              \<and> pointee w h' p = Some v)
       \<and> (\<forall>U. U \<noteq> typeid_of (type_id T) \<longrightarrow> target sigs U w = Some nullptr)"
proof -
  have "(storage w = Some null_erasure \<and> kind T \<noteq> class_type \<and> \<not> to_bool T v)
       \<or> storage w = Some (local_erasure T v)
       \<or> storage w = Some (ptm_erasure T v)
       \<or> (\<exists>al a. storage w = Some (allocator_erasure al T (Some a)) \<and> objects h' a = Some v)"
    using built
    by (elim disjE)
       (blast dest: new_wrapper_base_value_Normal new_wrapper_base_allocator_arg_Normal
                    operator_assign_value_Normal init_tag_Normal init_allocator_arg_tag_Normal)+
  moreover have "storage w \<noteq> Some null_erasure"
    using nonempty by (auto simp: operator_bool_def target_type_def DISPATCH_TABLE_slots)
  ultimately show ?thesis
    by (intro payload_target) blast
qed

theorem target_round_trip_witness:
  "new_wrapper_base lp64 [plain_sig] (from_value function_pointer lvalue 1) (fresh_heap 0)
     = Normal \<lparr>storage = Some (local_erasure function_pointer 1)\<rparr>
         (from_value function_pointer lvalue 1, fresh_heap 0)
   \<and> operator_bool [plain_sig] \<lparr>storage = Some (local_erasure function_pointer 1)\<rparr> = Some True
   \<and> (\<exists>p. target [plain_sig] (typeid_of (type_id function_pointer))
              \<lparr>storage = Some (local_erasure function_pointer 1)\<rparr> = Some p
          \<and> p \<noteq> nullptr
          \<and> pointee \<lparr>storage = Some (local_erasure function_pointer 1)\<rparr> (fresh_heap 0) p = Some 1)
   \<and> target [plain_sig] typeid_void \<lparr>storage = Some (local_erasure function_pointer 1)\<rparr>
       = Some nullptr"
proof -
  have b: "new_wrapper_base lp64 [plain_sig] (from_value function_pointer lvalue 1) (fresh_heap 0)
     = Normal \<lparr>storage = Some (local_erasure function_pointer 1)\<rparr>
         (from_value function_pointer lvalue 1, fresh_heap 0)"
    by (simp add: new_wrapper_base_def init_def init_tag_def function_pointer_def
          placement_new_def new_local_erasure_def table_instantiates_def construct_from_def
          continue_simps)
  have n: "operator_bool [plain_sig] \<lparr>storage = Some (local_erasure function_pointer 1)\<rparr>
      = Some True"
    by (simp add: operator_bool_def target_type_def DISPATCH_TABLE_slots)
  from target_round_trip [OF disjI1 [OF b] n] b n show ?thesis by simp
qed

text \<open>
  C10. An empty wrapper returns null from \<^verbatim>\<open>target< want >()\<close> for every \<open>want\<close>,
  \<^verbatim>\<open>void\<close> included: there the type test passes and \<^verbatim>\<open>null_erasure::target_access\<close>
  returns null.
\<close>

theorem empty_target_is_null:
  "operator_bool sigs c = Some False \<Longrightarrow> target sigs want c = Some nullptr"
  by (simp add: operator_bool_False_iff target_def target_type_def DISPATCH_TABLE_slots)

theorem empty_target_is_null_witness:
  "operator_bool [plain_sig] (\<lparr>storage = Some null_erasure\<rparr> :: (nat, int \<times> int, int) wrapper_base)
     = Some False
   \<and> target [plain_sig] typeid_void
       (\<lparr>storage = Some null_erasure\<rparr> :: (nat, int \<times> int, int) wrapper_base) = Some nullptr"
proof -
  have e: "operator_bool [plain_sig]
      (\<lparr>storage = Some null_erasure\<rparr> :: (nat, int \<times> int, int) wrapper_base) = Some False"
    by (simp add: operator_bool_def target_type_def DISPATCH_TABLE_slots)
  from empty_target_is_null [OF e] e show ?thesis by simp
qed

subsection \<open>Moving a wrapper\<close>

text \<open>
  Moving from a wrapper that is empty or holds its payload inline: the new wrapper is
  what the source was, and the source is empty afterwards.
\<close>

lemma move_of_inline:
  assumes "storage a = Some null_erasure
         \<or> (\<exists>T v. (storage a = Some (local_erasure T v) \<or> storage a = Some (ptm_erasure T v))
                \<and> nothrow_move_constructible T)"
  shows "new_wrapper_base abi sigs (from_wrapper rvalue a) h
           = Normal a (from_wrapper rvalue \<lparr>storage = Some null_erasure\<rparr>, h)
       \<and> (destroy sigs b h = Normal () (b1, h1) \<longrightarrow>
            operator_assign abi sigs b (from_wrapper rvalue a) h
              = Normal () (a, from_wrapper rvalue \<lparr>storage = Some null_erasure\<rparr>, h1))"
proof -
  have m: "init_move sigs w a h' = Normal () (a, \<lparr>storage = Some null_erasure\<rparr>, h')"
    for w :: "('a, 'b, 'c) wrapper_base" and h'
    using assms
    by (auto simp: init_move_def DISPATCH_TABLE_slots continue_simps construct_from_def
          assign_nullptr_def destroy_def init_nullptr_def)
  show ?thesis
    by (simp add: new_wrapper_base_def operator_assign_def init_def m continue_simps)
qed

text \<open>
  C5. After a move the new wrapper should behave as the source did and the source
  should be empty. For a payload stored through the allocator the move constructor of
  \<^verbatim>\<open>allocator_erasure\<close> takes the pointer over and sets the source's to null (second
  conjunct); then \<^verbatim>\<open>o = nullptr\<close> destroys the source, and the destructor of
  \<^verbatim>\<open>allocator_erasure\<close> destroys through that null pointer (third conjunct): the
  move construction and the move assignment are undefined.
\<close>

theorem move_of_allocated_is_undefined:
  "new_wrapper_base lp64 [plain_sig]
      (from_wrapper rvalue
         \<lparr>storage = Some (allocator_erasure (std_allocator lp64) large_functor (Some 0))\<rparr>)
      one_block
     = Undefined_behaviour
   \<and> erasure_special_move (allocator_erasure (std_allocator lp64) large_functor (Some 0))
        one_block
     = Normal (allocator_erasure (std_allocator lp64) large_functor (Some 0),
               allocator_erasure (std_allocator lp64) large_functor None)
         one_block
   \<and> destroy [plain_sig]
        \<lparr>storage = Some (allocator_erasure (std_allocator lp64) large_functor None)\<rparr>
        one_block
     = Undefined_behaviour
   \<and> operator_assign lp64 [plain_sig] \<lparr>storage = Some (local_erasure function_pointer 1)\<rparr>
      (from_wrapper rvalue
         \<lparr>storage = Some (allocator_erasure (std_allocator lp64) large_functor (Some 0))\<rparr>)
      one_block
     = Undefined_behaviour"
  by (simp add: eval_defs)

subsection \<open>Null pointers\<close>

text \<open>
  C6. Constructing or assigning a wrapper from a null pointer or a null pointer to
  member yields an empty wrapper, whatever the sizes in the description of the type
  and in the implementation.
\<close>

theorem null_pointer_yields_empty:
  assumes "kind T = pointer_type \<or> kind T = member_pointer_type"
    and "\<not> to_bool T p"
  shows "new_wrapper_base abi sigs (from_value T c p) h
           = Normal \<lparr>storage = Some null_erasure\<rparr> (from_value T c p, h)
       \<and> (destroy sigs w h = Normal () (w1, h1) \<longrightarrow>
            operator_assign abi sigs w (from_value T c p) h
              = Normal () (\<lparr>storage = Some null_erasure\<rparr>, from_value T c p, h1))
       \<and> operator_bool sigs \<lparr>storage = Some null_erasure\<rparr> = Some False"
proof -
  have tag: "init_tag abi w' T c p h' = Normal () (\<lparr>storage = Some null_erasure\<rparr>, h')"
    for w' :: "('a, 'b, 'c) wrapper_base" and h'
    using assms by (auto simp: init_tag_def init_nullptr_def)
  show ?thesis
    by (simp add: new_wrapper_base_def operator_assign_def init_def tag continue_simps
                  operator_bool_def target_type_def DISPATCH_TABLE_slots)
qed

theorem null_pointer_yields_empty_witness:
  "(kind function_pointer = pointer_type \<or> kind function_pointer = member_pointer_type)
   \<and> \<not> to_bool function_pointer 0
   \<and> new_wrapper_base lp64 [plain_sig] (from_value function_pointer rvalue 0) (fresh_heap 0)
       = Normal \<lparr>storage = Some null_erasure\<rparr> (from_value function_pointer rvalue 0, fresh_heap 0)
   \<and> operator_assign lp64 [plain_sig] \<lparr>storage = Some (local_erasure function_pointer 1)\<rparr>
        (from_value function_pointer rvalue 0) (fresh_heap 0)
       = Normal () (\<lparr>storage = Some null_erasure\<rparr>, from_value function_pointer rvalue 0, fresh_heap 0)
   \<and> operator_bool [plain_sig]
        (\<lparr>storage = Some null_erasure\<rparr> :: (nat, int \<times> int, int) wrapper_base) = Some False"
proof -
  have k: "kind function_pointer = pointer_type \<or> kind function_pointer = member_pointer_type"
    by (simp add: function_pointer_def)
  have z: "\<not> to_bool function_pointer 0"
    by (simp add: function_pointer_def)
  have d: "destroy [plain_sig] \<lparr>storage = Some (local_erasure function_pointer 1)\<rparr> (fresh_heap 0)
      = Normal () (\<lparr>storage = None\<rparr>, fresh_heap 0)"
    by (simp add: destroy_def DISPATCH_TABLE_slots continue_simps)
  from null_pointer_yields_empty [OF k z, where abi = lp64 and sigs = "[plain_sig]"
      and c = rvalue and h = "fresh_heap 0"
      and w = "\<lparr>storage = Some (local_erasure function_pointer 1)\<rparr>"
      and ?w1.0 = "\<lparr>storage = None\<rparr>" and ?h1.0 = "fresh_heap 0"] k z d
  show ?thesis by simp
qed

text \<open>
  With \<^verbatim>\<open>std::allocator_arg\<close> the pointer overloads are reached through the overload
  for small sources.
\<close>

lemma null_pointer_with_allocator:
  assumes "kind T = pointer_type \<or> kind T = member_pointer_type"
    and "\<not> to_bool T p" and "is_small abi T"
  shows "new_wrapper_base_allocator_arg abi sigs al T c p h
           = Normal \<lparr>storage = Some null_erasure\<rparr> h"
  using assms
  by (auto simp: new_wrapper_base_allocator_arg_def init_allocator_arg_tag_def init_tag_def
        init_nullptr_def continue_simps)

subsection \<open>The allocator-backed erasure\<close>

text \<open>
  What the constructor and the destructor of \<^verbatim>\<open>allocator_erasure\<close> do through the
  allocator: one allocation of one element and one construction in it; then one
  destruction of the object there.
\<close>

lemma allocator_erasure_calls:
  assumes "new_allocator_erasure al T c v h = Normal e h1"
  shows "e = allocator_erasure al T (Some (next_addr h))
       \<and> log h1 = log h @ [Allocate (alloc_id al) 1 (next_addr h),
                            Construct (alloc_id al) (next_addr h)]
       \<and> objects h1 (next_addr h) = Some v
       \<and> (\<exists>h2. erasure_special_destroy e h1 = Normal () h2
              \<and> log h2 = log h1 @ [Destroy (alloc_id al) (next_addr h)]
              \<and> objects h2 (next_addr h) = None)"
  using new_allocator_erasure_Normal [OF assms]
  by (auto simp: destroy_at_def)

text \<open>
  C7. An \<^verbatim>\<open>allocator_erasure\<close> should release its one allocation when it is destroyed,
  and at once when the \<^verbatim>\<open>construct\<close> step throws. It allocates one element and
  constructs in it, and its destructor destroys the payload, but nothing deallocates:
  after construction and destruction the block at \<open>0\<close> is still live, and so it is
  after a construction whose \<^verbatim>\<open>construct\<close> step threw. Had the destructor gone on to
  deallocate, no block would be live (last conjunct).
\<close>

theorem allocation_is_never_released:
  "new_allocator_erasure (std_allocator lp64) large_functor rvalue 0 (fresh_heap 1)
     = Normal (allocator_erasure (std_allocator lp64) large_functor (Some 0)) one_block
   \<and> erasure_special_destroy (allocator_erasure (std_allocator lp64) large_functor (Some 0))
        one_block
     = Normal ()
         \<lparr>objects = Map.empty, log = [Allocate 0 1 0, Construct 0 0, Destroy 0 0],
           next_addr = 1, remaining = 0\<rparr>
   \<and> live_blocks [Allocate 0 1 0, Construct 0 0, Destroy 0 0] = [0]
   \<and> new_allocator_erasure (std_allocator lp64) throwing_copy lvalue 0 (fresh_heap 1)
     = Throws (user_exception 7)
         \<lparr>objects = Map.empty, log = [Allocate 0 1 0], next_addr = 1, remaining = 0\<rparr>
   \<and> live_blocks [Allocate 0 1 0] = [0]
   \<and> live_blocks [Allocate 0 1 0, Construct 0 0, Destroy 0 0, Deallocate 0 0 1] = []"
  by (simp add: eval_defs live_blocks_def large_functor_def throwing_copy_def)

subsection \<open>The fallback for a const access path\<close>






subsection \<open>The copy entry of the table\<close>

text \<open>
  C9. For a payload type that is not copy-constructible the copy entry of the table
  should be null. The accessor \<^verbatim>\<open>erasure_copy\<close> would make it so, but
  \<^verbatim>\<open>DISPATCH_TABLE\<close> does not call it: the entry is \<^verbatim>\<open>& NAME::copy\<close> for such a type
  too, and a program that reaches it does not compile; nor does one that wraps such a
  payload, since that instantiates the table.
\<close>

theorem copy_slot_is_never_null:
  "\<not> copy_constructible move_only
   \<and> erasure_copy (local_erasure move_only 0) = None
   \<and> copy_constructor_slot (table [plain_sig] (local_erasure move_only 0))
       = Some erasure_special_copy
   \<and> init_copy [plain_sig] \<lparr>storage = None\<rparr> \<lparr>storage = Some (local_erasure move_only 0)\<rparr>
        (fresh_heap 0)
       = Ill_formed
   \<and> new_wrapper_base lp64 [plain_sig] (from_value move_only rvalue 0) (fresh_heap 0)
       = Ill_formed"
  by (simp add: eval_defs erasure_copy_def move_only_def)

end
